theory Spec2Isabelle
  imports Complex_Main
begin

section \<open>Strings of the script\<close>

text \<open>
  A script string is modelled as a \<^typ>\<open>string\<close>: one \<^typ>\<open>char\<close> per code unit, for the
  code units below 256. The white space of \<^verbatim>\<open>String.prototype.trim\<close> and of the regular
  expression class \<^verbatim>\<open>\s\<close> in that range is TAB, LF, VT, FF, CR, SPACE and the no-break
  space; \<^verbatim>\<open>\d\<close> is the ten ASCII digits.
\<close>

definition LF :: char where
  "LF = CHR 0x0A"

definition DQ :: char where
  "DQ = CHR 0x22"

definition SQ :: char where
  "SQ = CHR 0x27"

definition isWhiteSpace :: "char \<Rightarrow> bool" where
  "isWhiteSpace c =
     (c = CHR 0x09 \<or> c = CHR 0x0A \<or> c = CHR 0x0B \<or> c = CHR 0x0C \<or> c = CHR 0x0D
      \<or> c = CHR 0x20 \<or> c = CHR 0xA0)"

definition isDigit :: "char \<Rightarrow> bool" where
  "isDigit c = (c \<in> set ''0123456789'')"

text \<open>\<^verbatim>\<open>s.trim()\<close>: white space removed at both ends.\<close>

definition trim :: "string \<Rightarrow> string" where
  "trim s = rev (dropWhile isWhiteSpace (rev (dropWhile isWhiteSpace s)))"

text \<open>\<^verbatim>\<open>text.split('\n')\<close>: the pieces between line feeds; never the empty list.\<close>

fun split :: "string \<Rightarrow> string list" where
  "split [] = [[]]"
| "split (c # cs) =
     (if c = LF then [] # split cs
      else (case split cs of [] \<Rightarrow> [[c]] | l # ls \<Rightarrow> (c # l) # ls))"

text \<open>\<^verbatim>\<open>line.endsWith(':')\<close> and \<^verbatim>\<open>line.startsWith('-')\<close>, for a one-character argument.\<close>

definition endsWith :: "string \<Rightarrow> char \<Rightarrow> bool" where
  "endsWith s c = (case rev s of [] \<Rightarrow> False | x # _ \<Rightarrow> x = c)"

definition startsWith :: "string \<Rightarrow> char \<Rightarrow> bool" where
  "startsWith s c = (case s of [] \<Rightarrow> False | x # _ \<Rightarrow> x = c)"

text \<open>
  \<^verbatim>\<open>/^\d+\./.test(line)\<close>: a non-empty run of digits at the start, then a period. The run
  matched is the longest one, since the character after it must not be a digit.
\<close>

definition testNumbered :: "string \<Rightarrow> bool" where
  "testNumbered s =
     (takeWhile isDigit s \<noteq> [] \<and> startsWith (dropWhile isDigit s) (CHR ''.''))"

text \<open>
  \<^verbatim>\<open>line.replace(/^\d+\.\s*/, '')\<close>: the digits, the period and the white space after it
  are removed when the pattern matches; the line is returned unchanged otherwise.
\<close>

definition stripNumber :: "string \<Rightarrow> string" where
  "stripNumber s =
     (if testNumbered s then dropWhile isWhiteSpace (tl (dropWhile isDigit s)) else s)"

text \<open>\<^verbatim>\<open>line.substring(1).trim()\<close>.\<close>

definition stripDash :: "string \<Rightarrow> string" where
  "stripDash s = trim (drop 1 s)"

text \<open>\<^verbatim>\<open>text.replace(/c/g, r)\<close> for a single character \<open>c\<close>: every occurrence is replaced.\<close>

definition replaceChar :: "char \<Rightarrow> string \<Rightarrow> string \<Rightarrow> string" where
  "replaceChar c r s = concat (map (\<lambda>x. if x = c then r else [x]) s)"

text \<open>\<^verbatim>\<open>escapeHtml\<close>: five replacements in the order of the source, the ampersand first.\<close>

definition escapeHtml :: "string \<Rightarrow> string" where
  "escapeHtml text =
     replaceChar SQ ''&#039;''
       (replaceChar DQ ''&quot;''
         (replaceChar (CHR ''>'') ''&gt;''
           (replaceChar (CHR ''<'') ''&lt;''
             (replaceChar (CHR ''&'') ''&amp;'' text))))"

section \<open>The HTML converter\<close>

text \<open>
  The three variables the loop of \<^verbatim>\<open>convertMarkdownToHTML\<close> assigns: the output so far,
  whether a list is open, and its tag (\<^verbatim>\<open>''\<close> at the start, then \<^verbatim>\<open>'ol'\<close> or \<^verbatim>\<open>'ul'\<close>).
\<close>

record conv =
  html :: string
  inList :: bool
  listType :: string

text \<open>\<^verbatim>\<open>html += listType === 'ol' ? '</ol>' : '</ul>'\<close>.\<close>

definition closeTag :: "conv \<Rightarrow> string" where
  "closeTag s = (if listType s = ''ol'' then ''</ol>'' else ''</ul>'')"

definition emit :: "string \<Rightarrow> conv \<Rightarrow> conv" where
  "emit x s = s\<lparr>html := html s @ x\<rparr>"

text \<open>\<^verbatim>\<open>if (inList) { html += ...; inList = false; }\<close>.\<close>

definition closeList :: "conv \<Rightarrow> conv" where
  "closeList s = (if inList s then (emit (closeTag s) s)\<lparr>inList := False\<rparr> else s)"

text \<open>
  The block that opens a list of tag \<open>t\<close>:
  \<^verbatim>\<open>if (!inList || listType !== t) { if (inList) html += close; html += '<t>\n'; inList = true; listType = t; }\<close>.
\<close>

definition openList :: "string \<Rightarrow> conv \<Rightarrow> conv" where
  "openList t s =
     (if \<not> inList s \<or> listType s \<noteq> t
      then (emit (''<'' @ t @ ''>'' @ [LF]) (if inList s then emit (closeTag s) s else s))
             \<lparr>inList := True, listType := t\<rparr>
      else s)"

text \<open>The body of the \<^verbatim>\<open>forEach\<close>, one line at a time.\<close>

definition htmlLine :: "conv \<Rightarrow> string \<Rightarrow> conv" where
  "htmlLine s raw =
     (let line = trim raw in
      if line = [] then closeList s
      else if endsWith line (CHR '':'') then
        emit (''<h2>'' @ escapeHtml line @ ''</h2>'' @ [LF]) (closeList s)
      else if testNumbered line then
        emit (''<li>'' @ escapeHtml (stripNumber line) @ ''</li>'' @ [LF]) (openList ''ol'' s)
      else if startsWith line (CHR ''-'') then
        emit (''<li>'' @ escapeHtml (stripDash line) @ ''</li>'' @ [LF]) (openList ''ul'' s)
      else
        emit (''<p>'' @ escapeHtml line @ ''</p>'' @ [LF]) (closeList s))"

text \<open>The opening template, with the agent name and the context interpolated as they are.\<close>

definition htmlHeader :: "string \<Rightarrow> string \<Rightarrow> string" where
  "htmlHeader agentName extraContext =
     [LF] @ ''<div class='' @ [DQ] @ ''agent-response'' @ [DQ] @ ''>'' @ [LF]
     @ ''    <h1>'' @ agentName @ '' - '' @ extraContext @ ''</h1>'' @ [LF]"

text \<open>
  The closing template; \<open>now\<close> stands for \<^verbatim>\<open>new Date().toLocaleString()\<close>, which the script
  reads from its environment.
\<close>

definition htmlFooter :: "string \<Rightarrow> string" where
  "htmlFooter now =
     [LF] @ ''    <div class='' @ [DQ] @ ''footer'' @ [DQ] @ ''>'' @ [LF]
     @ ''        <p>Generated by Strategic Advisor System</p>'' @ [LF]
     @ ''        <p>'' @ now @ ''</p>'' @ [LF]
     @ ''    </div>'' @ [LF]
     @ ''</div>'' @ [LF]"

text \<open>\<^verbatim>\<open>if (inList) { html += listType === 'ol' ? '</ol>' : '</ul>'; }\<close> after the loop.\<close>

definition finish :: "conv \<Rightarrow> string" where
  "finish s = (if inList s then html s @ closeTag s else html s)"

definition convertMarkdownToHTML :: "string \<Rightarrow> string \<Rightarrow> string \<Rightarrow> string \<Rightarrow> string" where
  "convertMarkdownToHTML now text agentName extraContext =
     (let s = foldl htmlLine \<lparr>html = htmlHeader agentName extraContext, inList = False,
                              listType = []\<rparr> (split text)
      in finish s @ htmlFooter now)"

section \<open>The document adapter\<close>

text \<open>
  The body of the document is the sequence of elements appended to it, each with the
  attributes the script sets on it, in the order of the calls.
\<close>

datatype ParagraphHeading = HEADING1 | HEADING2

datatype GlyphType = NUMBER | BULLET

datatype attribute =
    Heading ParagraphHeading
  | Bold bool
  | SpacingBefore nat
  | SpacingAfter nat
  | FontSize nat
  | LineSpacing rat
  | Glyph GlyphType

datatype element = Paragraph string "attribute list" | ListItem string "attribute list"

definition docLine :: "element list \<Rightarrow> string \<Rightarrow> element list" where
  "docLine body raw =
     (let line = trim raw in
      if line = [] then body
      else if endsWith line (CHR '':'') then
        body @ [Paragraph line [Heading HEADING2, Bold True, SpacingBefore 16, SpacingAfter 6]]
      else if testNumbered line then
        body @ [ListItem line [Glyph NUMBER, FontSize 11]]
      else if startsWith line (CHR ''-'') then
        body @ [ListItem (stripDash line) [Glyph BULLET, FontSize 11]]
      else
        body @ [Paragraph line [FontSize 11, LineSpacing (14 / 10), SpacingAfter 8]])"

definition addStyledContent :: "element list \<Rightarrow> string \<Rightarrow> element list" where
  "addStyledContent body text = foldl docLine body (split text)"

section \<open>Line kinds and blocks\<close>

text \<open>
  The branch of the \<^verbatim>\<open>if\<close> chain of \<^verbatim>\<open>convertMarkdownToHTML\<close> that a trimmed line takes,
  with the text that branch passes on.
\<close>

datatype ordinal = Ordered | Unordered

datatype LineKind =
    Blank
  | HeadingLine string
  | ListItemLine ordinal string
  | ParagraphLine string

definition classify :: "string \<Rightarrow> LineKind" where
  "classify line =
     (if line = [] then Blank
      else if endsWith line (CHR '':'') then HeadingLine line
      else if testNumbered line then ListItemLine Ordered (stripNumber line)
      else if startsWith line (CHR ''-'') then ListItemLine Unordered (stripDash line)
      else ParagraphLine line)"

definition tagOf :: "ordinal \<Rightarrow> string" where
  "tagOf k = (case k of Ordered \<Rightarrow> ''ol'' | Unordered \<Rightarrow> ''ul'')"

text \<open>What the loop body does with a line of each kind.\<close>

definition lineItem :: "string \<Rightarrow> string" where
  "lineItem t = ''<li>'' @ escapeHtml t @ ''</li>'' @ [LF]"

fun htmlStep :: "conv \<Rightarrow> LineKind \<Rightarrow> conv" where
  "htmlStep s Blank = closeList s"
| "htmlStep s (HeadingLine t) = emit (''<h2>'' @ escapeHtml t @ ''</h2>'' @ [LF]) (closeList s)"
| "htmlStep s (ListItemLine k t) = emit (lineItem t) (openList (tagOf k) s)"
| "htmlStep s (ParagraphLine t) = emit (''<p>'' @ escapeHtml t @ ''</p>'' @ [LF]) (closeList s)"

text \<open>
  The structured document of the specification: headings, paragraphs, and list blocks
  made of the longest runs of consecutive list lines of one kind.
\<close>

datatype Block =
    HeadingBlock string
  | ListBlock ordinal "string list"
  | ParagraphBlock string

fun isItem :: "ordinal \<Rightarrow> LineKind \<Rightarrow> bool" where
  "isItem k (ListItemLine k' t) = (k = k')"
| "isItem k Blank = False"
| "isItem k (HeadingLine t) = False"
| "isItem k (ParagraphLine t) = False"

fun itemText :: "LineKind \<Rightarrow> string" where
  "itemText (ListItemLine k t) = t"
| "itemText Blank = []"
| "itemText (HeadingLine t) = t"
| "itemText (ParagraphLine t) = t"

function maximalBlocks :: "LineKind list \<Rightarrow> Block list" where
  "maximalBlocks [] = []"
| "maximalBlocks (Blank # ls) = maximalBlocks ls"
| "maximalBlocks (HeadingLine t # ls) = HeadingBlock t # maximalBlocks ls"
| "maximalBlocks (ParagraphLine t # ls) = ParagraphBlock t # maximalBlocks ls"
| "maximalBlocks (ListItemLine k t # ls) =
     ListBlock k (t # map itemText (takeWhile (isItem k) ls))
       # maximalBlocks (dropWhile (isItem k) ls)"
  by pat_completeness auto
termination
  by (relation "measure length") (auto simp: le_imp_less_Suc length_dropWhile_le)

text \<open>The markup of one block, with the escaping function as a parameter.\<close>

fun blockHtml :: "(string \<Rightarrow> string) \<Rightarrow> Block \<Rightarrow> string" where
  "blockHtml esc (HeadingBlock t) = ''<h2>'' @ esc t @ ''</h2>'' @ [LF]"
| "blockHtml esc (ListBlock k ts) =
     ''<'' @ tagOf k @ ''>'' @ [LF]
     @ concat (map (\<lambda>t. ''<li>'' @ esc t @ ''</li>'' @ [LF]) ts)
     @ ''</'' @ tagOf k @ ''>''"
| "blockHtml esc (ParagraphBlock t) = ''<p>'' @ esc t @ ''</p>'' @ [LF]"

definition lineKinds :: "string \<Rightarrow> LineKind list" where
  "lineKinds text = map (\<lambda>raw. classify (trim raw)) (split text)"

definition htmlBlocks :: "string \<Rightarrow> Block list" where
  "htmlBlocks text = maximalBlocks (lineKinds text)"

section \<open>Case mapping\<close>

text \<open>
  \<^verbatim>\<open>toLowerCase\<close> and \<^verbatim>\<open>toUpperCase\<close> on the modelled range of code units: the ASCII
  letters and the accented letters \<open>0xC0\<close> to \<open>0xDE\<close> and \<open>0xE0\<close> to \<open>0xFE\<close> (the signs
  \<open>0xD7\<close> and \<open>0xF7\<close> are not letters); the sharp s \<open>0xDF\<close> becomes \<^verbatim>\<open>SS\<close> in upper case.
  The upper-case forms of \<open>0xB5\<close> and \<open>0xFF\<close> lie beyond the range; the model leaves the
  two code units as they are, and neither form is an ASCII letter.
\<close>

definition toLowerChar :: "char \<Rightarrow> char" where
  "toLowerChar c =
     (let n = (of_char c :: nat) in
      if (65 \<le> n \<and> n \<le> 90) \<or> (192 \<le> n \<and> n \<le> 222 \<and> n \<noteq> 215)
      then char_of (n + 32) else c)"

definition toLowerCase :: "string \<Rightarrow> string" where
  "toLowerCase s = map toLowerChar s"

definition toUpperChar :: "char \<Rightarrow> string" where
  "toUpperChar c =
     (let n = (of_char c :: nat) in
      if (97 \<le> n \<and> n \<le> 122) \<or> (224 \<le> n \<and> n \<le> 254 \<and> n \<noteq> 247)
      then [char_of (n - 32)]
      else if n = 223 then ''SS'' else [c])"

definition toUpperCase :: "string \<Rightarrow> string" where
  "toUpperCase s = concat (map toUpperChar s)"

section \<open>The services the script calls\<close>

text \<open>
  Every call of a service of the platform is an event of the request's trace, recorded when
  the call is made, whether it returns or throws. The answers of the services are the fields
  of a \<open>world\<close>: for a call that returns nothing of interest, \<open>None\<close> when it returns and
  \<open>Some message\<close> when it throws an error with that message.
\<close>

record mail =
  to :: string
  subject :: string
  body :: "string option"
  htmlBody :: "string option"
  attachments :: "string list"

record document =
  docName :: string
  margins :: "nat \<times> nat \<times> nat \<times> nat"
  elements :: "element list"

datatype event =
    SheetRead
  | Fetch string
  | DocCreate string
  | DocSave document
  | GetFile
  | GetAs string
  | SendEmail mail
  | SetTrashed
  | Log string

record world =
  sheet :: "(string \<times> string) list"
  apiKey :: "string option"
  fetchResult :: "string + string"
  now :: string
  newDocBody :: "element list"
  docId :: string
  createFails :: "string option"
  saveFails :: "string option"
  getFileFails :: "string option"
  getAsFails :: "string option"
  sendFails :: "string option"
  trashFails :: "string option"

text \<open>
  The fields of \<open>world\<close>: \<open>sheet\<close> is the value of \<^verbatim>\<open>getDataRange().getValues()\<close> on the sheet
  \<^verbatim>\<open>GTAgents\<close>, the first two cells of every row as strings, the header row first;
  \<open>fetchResult\<close> is \<open>Inr\<close> of the string \<^verbatim>\<open>result.choices[0].message.content\<close> when the
  request, the parsing and the property accesses succeed, and \<open>Inl\<close> of the error message
  otherwise; \<open>now\<close> is \<^verbatim>\<open>new Date().toLocaleString()\<close>; \<open>newDocBody\<close> is the body of a
  document that has just been created, before which the title is inserted; \<open>docId\<close> is
  its identifier.

  A computation of the script yields the events it performed and either the message of the
  error it threw (\<open>Inl\<close>) or its value (\<open>Inr\<close>).
\<close>

type_synonym 'a act = "event list \<times> (string + 'a)"

definition ret :: "'a \<Rightarrow> 'a act" where
  "ret x = ([], Inr x)"

definition throw :: "string \<Rightarrow> 'a act" where
  "throw m = ([], Inl m)"

definition andThen :: "'a act \<Rightarrow> ('a \<Rightarrow> 'b act) \<Rightarrow> 'b act" where
  "andThen m f =
     (case m of
        (t, Inl e) \<Rightarrow> (t, Inl e)
      | (t, Inr x) \<Rightarrow> (case f x of (t', r) \<Rightarrow> (t @ t', r)))"

definition tryCatch :: "'a act \<Rightarrow> (string \<Rightarrow> 'a act) \<Rightarrow> 'a act" where
  "tryCatch m h =
     (case m of
        (t, Inl e) \<Rightarrow> (case h e of (t', r) \<Rightarrow> (t @ t', r))
      | (t, Inr x) \<Rightarrow> (t, Inr x))"

definition call :: "event \<Rightarrow> string option \<Rightarrow> unit act" where
  "call ev fails = ([ev], case fails of Some m \<Rightarrow> Inl m | None \<Rightarrow> Inr ())"

definition log :: "string \<Rightarrow> unit act" where
  "log m = ([Log m], Inr ())"

section \<open>The output handlers\<close>

text \<open>The object a handler returns: \<^verbatim>\<open>{status: 'success', message, outputFormat, output, extraContext}\<close>,
  or \<^verbatim>\<open>{status: 'error', message}\<close>.\<close>

datatype response =
    Success string string "string option" string
  | Failure string

definition recipient :: string where
  "recipient = ''gauravtalele2025@gmail.com''"

definition handlePDFOutput :: "world \<Rightarrow> string \<Rightarrow> string \<Rightarrow> string \<Rightarrow> response act" where
  "handlePDFOutput w agentName advisorText extraContext =
     andThen (call (DocCreate (agentName @ ''-Output'')) (createFails w)) (\<lambda>_.
     andThen (call (DocSave
        \<lparr>docName = agentName @ ''-Output'',
         margins = (36, 36, 36, 36),
         elements = addStyledContent
           (Paragraph (agentName @ '' - '' @ extraContext) [Heading HEADING1, Bold True]
              # newDocBody w @ [Paragraph '' '' [], Paragraph '' '' []])
           advisorText\<rparr>) (saveFails w)) (\<lambda>_.
     andThen (call GetFile (getFileFails w)) (\<lambda>_.
     andThen (call (GetAs (agentName @ ''-Output.pdf'')) (getAsFails w)) (\<lambda>_.
     andThen (call (SendEmail
        \<lparr>to = recipient,
         subject = agentName @ '' - Output'',
         body = Some (''Attached is the strategic report for '' @ agentName @ ''.''),
         htmlBody = None,
         attachments = [agentName @ ''-Output.pdf'']\<rparr>) (sendFails w)) (\<lambda>_.
     andThen (tryCatch
        (andThen (call SetTrashed (trashFails w)) (\<lambda>_.
           log (''Cleaned up temporary Google Doc: '' @ docId w)))
        (\<lambda>m. log (''Warning: Could not delete temporary doc: '' @ m))) (\<lambda>_.
     andThen (log (''PDF report sent successfully for '' @ agentName)) (\<lambda>_.
     ret (Success (''PDF report sent for '' @ agentName) ''PDF'' None extraContext))))))))"

definition handleHTMLOutput :: "world \<Rightarrow> string \<Rightarrow> string \<Rightarrow> string \<Rightarrow> response act" where
  "handleHTMLOutput w agentName advisorText extraContext =
     (let htmlContent = convertMarkdownToHTML (now w) advisorText agentName extraContext in
      andThen (log (''HTML successfully generated for '' @ agentName)) (\<lambda>_.
      ret (Success (''HTML successfully generated for '' @ agentName) ''HTML''
             (Some (filter (\<lambda>c. c \<noteq> LF) htmlContent)) extraContext)))"

definition handleEmailOutput :: "world \<Rightarrow> string \<Rightarrow> string \<Rightarrow> string \<Rightarrow> response act" where
  "handleEmailOutput w agentName advisorText extraContext =
     (let htmlContent = convertMarkdownToHTML (now w) advisorText agentName extraContext in
      andThen (call (SendEmail
         \<lparr>to = recipient,
          subject = agentName @ '' - Output'',
          body = None,
          htmlBody = Some htmlContent,
          attachments = []\<rparr>) (sendFails w)) (\<lambda>_.
      andThen (log (''HTML email sent successfully for '' @ agentName)) (\<lambda>_.
      ret (Success (''HTML email sent for '' @ agentName) ''EMAIL'' None extraContext))))"

section \<open>The dispatcher\<close>

definition generateAndSendOutput ::
  "world \<Rightarrow> string \<Rightarrow> string \<Rightarrow> string \<Rightarrow> string \<Rightarrow> response act" where
  "generateAndSendOutput w agentName fullPrompt outputFormat extraContext =
     (if apiKey w = None \<or> apiKey w = Some []
      then throw ''Missing OPENROUTER_API_KEY in Script Properties''
      else tryCatch
        (andThen ([Fetch fullPrompt], fetchResult w) (\<lambda>advisorText.
           if outputFormat = ''PDF'' then handlePDFOutput w agentName advisorText extraContext
           else if outputFormat = ''EMAIL'' then
             handleEmailOutput w agentName advisorText extraContext
           else if outputFormat = ''HTML'' then
             handleHTMLOutput w agentName advisorText extraContext
           else throw ''Invalid output format''))
        (\<lambda>m. andThen (log (''Error for '' @ agentName @ '': '' @ m)) (\<lambda>_. throw m)))"

text \<open>
  The loop of \<^verbatim>\<open>runAgent\<close> over the rows after the header: the second cell of the first
  row whose first cell, trimmed and in lower case, is the agent name in lower case;
  \<open>None\<close> is the \<^verbatim>\<open>null\<close> the variable keeps when no row matches.
\<close>

fun findAgent :: "(string \<times> string) list \<Rightarrow> string \<Rightarrow> string option" where
  "findAgent [] agentName = None"
| "findAgent ((name, prompt) # rows) agentName =
     (if toLowerCase (trim name) = toLowerCase agentName then Some prompt
      else findAgent rows agentName)"

definition notFound :: "string \<Rightarrow> string" where
  "notFound agentName = ''Agent '' @ [DQ] @ agentName @ [DQ] @ '' not found in sheet''"

definition runAgent :: "world \<Rightarrow> string \<Rightarrow> string \<Rightarrow> string \<Rightarrow> response act" where
  "runAgent w agentName extraContext outputFormat =
     andThen ([SheetRead], Inr ()) (\<lambda>_.
       case findAgent (drop 1 (sheet w)) agentName of
         None \<Rightarrow> throw (notFound agentName)
       | Some basePrompt \<Rightarrow>
           if basePrompt = [] then throw (notFound agentName)
           else generateAndSendOutput w agentName (basePrompt @ [LF, LF] @ extraContext)
                  outputFormat extraContext)"

text \<open>The parameters of the request, \<open>None\<close> for a parameter the request does not carry.\<close>

record params =
  agentname :: "string option"
  contextParam :: "string option"
  outputFormat :: "string option"

text \<open>\<^verbatim>\<open>x || d\<close> on a parameter: \<open>d\<close> when the parameter is missing or the empty string.\<close>

definition orElse :: "string option \<Rightarrow> string \<Rightarrow> string" where
  "orElse x d = (case x of None \<Rightarrow> d | Some v \<Rightarrow> if v = [] then d else v)"

text \<open>
  \<^verbatim>\<open>doGet\<close> returns the events of the request and the object it serialises as the JSON
  payload; an error thrown below it becomes the error object.
\<close>

definition doGet :: "world \<Rightarrow> params \<Rightarrow> event list \<times> response" where
  "doGet w p =
     (let extraContext = orElse (contextParam p) [];
          outputFormat = toUpperCase (orElse (outputFormat p) ''PDF'')
      in case agentname p of
           None \<Rightarrow> ([], Failure ''Missing agentname parameter'')
         | Some agentName \<Rightarrow>
             if agentName = [] then ([], Failure ''Missing agentname parameter'')
             else if outputFormat \<notin> set [''PDF'', ''EMAIL'', ''HTML''] then
               ([], Failure ''Invalid outputFormat. Must be PDF, HTML, or EMAIL'')
             else (case runAgent w agentName extraContext outputFormat of
                     (t, Inl m) \<Rightarrow> (t, Failure m)
                   | (t, Inr r) \<Rightarrow> (t, r)))"

section \<open>The entities of the five characters\<close>

text \<open>What the specification asks of the escaping: each of the five characters becomes its
  entity, every other character stays.\<close>

definition entity :: "char \<Rightarrow> string" where
  "entity c =
     (if c = CHR ''&'' then ''&amp;''
      else if c = CHR ''<'' then ''&lt;''
      else if c = CHR ''>'' then ''&gt;''
      else if c = DQ then ''&quot;''
      else if c = SQ then ''&#039;''
      else [c])"

section \<open>Example requests\<close>

text \<open>Two strings match case-insensitively when their lower-case forms are equal.\<close>

definition caseInsensitiveMatch :: "string \<Rightarrow> string \<Rightarrow> bool" where
  "caseInsensitiveMatch a b = (toLowerCase a = toLowerCase b)"

definition exampleWorld :: world where
  "exampleWorld =
     \<lparr>sheet = [(''Agent'', ''Prompt''), (''SA'', ''Advise on:'')],
      apiKey = Some ''key'',
      fetchResult = Inr (''Risks:'' @ [LF] @ ''- slip''),
      now = ''1/1/2026, 9:00:00 AM'',
      newDocBody = [Paragraph [] []],
      docId = ''doc-1'',
      createFails = None, saveFails = None, getFileFails = None, getAsFails = None,
      sendFails = None, trashFails = None\<rparr>"

definition paddedStore :: world where
  "paddedStore = exampleWorld\<lparr>sheet := [(''Agent'', ''Prompt''), ('' SA '', ''Advise on:'')]\<rparr>"

definition duplicateStore :: world where
  "duplicateStore =
     exampleWorld\<lparr>sheet := [(''Agent'', ''Prompt''), (''SA'', ''Advise on:''), (''sa'', [])]\<rparr>"

definition sendFailure :: world where
  "sendFailure = exampleWorld\<lparr>sendFails := Some ''Service invoked too many times''\<rparr>"

definition convertFailure :: world where
  "convertFailure = exampleWorld\<lparr>getAsFails := Some ''Conversion from text/plain failed''\<rparr>"

definition trashFailure :: world where
  "trashFailure = exampleWorld\<lparr>trashFails := Some ''Access denied''\<rparr>"

definition emptyFormat :: params where
  "emptyFormat =
     \<lparr>agentname = Some ''SA'', contextParam = Some ''deadlines'', outputFormat = Some []\<rparr>"

definition emptyPromptStore :: world where
  "emptyPromptStore = exampleWorld\<lparr>sheet := [(''Agent'', ''Prompt''), (''sa'', [])]\<rparr>"

definition xmlFormat :: params where
  "xmlFormat =
     \<lparr>agentname = Some ''SA'', contextParam = Some ''deadlines'', outputFormat = Some ''xml''\<rparr>"

text \<open>The message and the document of the PDF handler, named for the statements below.\<close>

definition pdfMail :: "string \<Rightarrow> mail" where
  "pdfMail agentName =
     \<lparr>to = recipient, subject = agentName @ '' - Output'',
      body = Some (''Attached is the strategic report for '' @ agentName @ ''.''),
      htmlBody = None, attachments = [agentName @ ''-Output.pdf'']\<rparr>"

definition pdfDocument :: "world \<Rightarrow> string \<Rightarrow> string \<Rightarrow> string \<Rightarrow> document" where
  "pdfDocument w agentName advisorText extraContext =
     \<lparr>docName = agentName @ ''-Output'', margins = (36, 36, 36, 36),
      elements = addStyledContent
        (Paragraph (agentName @ '' - '' @ extraContext) [Heading HEADING1, Bold True]
           # newDocBody w @ [Paragraph '' '' [], Paragraph '' '' []])
        advisorText\<rparr>"

section \<open>Unfolding rules\<close>

lemmas string_defs = LF_def DQ_def SQ_def isWhiteSpace_def isDigit_def trim_def endsWith_def
  startsWith_def testNumbered_def stripNumber_def stripDash_def replaceChar_def escapeHtml_def

lemmas act_defs = ret_def throw_def andThen_def tryCatch_def call_def log_def

lemmas case_defs = toLowerCase_def toLowerChar_def toUpperCase_def toUpperChar_def char_of_def
  bit_0

section \<open>The loop of the HTML converter builds the longest runs\<close>

lemma htmlLine_classify: "htmlLine s raw = htmlStep s (classify (trim raw))"
  by (simp add: htmlLine_def classify_def lineItem_def tagOf_def Let_def)

lemma foldl_htmlLine:
  "foldl htmlLine s raws = foldl htmlStep s (map (\<lambda>raw. classify (trim raw)) raws)"
  by (induction raws arbitrary: s) (simp_all add: htmlLine_classify)

lemma closeTag_tagOf: "listType s = tagOf k \<Longrightarrow> closeTag s = ''</'' @ tagOf k @ ''>''"
  by (cases k) (simp_all add: closeTag_def tagOf_def)

lemma tagOf_inj: "(tagOf k = tagOf k') = (k = k')"
  by (cases k; cases k') (simp_all add: tagOf_def)

lemma blockHtml_lineItem:
  "blockHtml escapeHtml (ListBlock k ts)
     = ''<'' @ tagOf k @ ''>'' @ [LF] @ concat (map lineItem ts) @ ''</'' @ tagOf k @ ''>''"
proof -
  have "(\<lambda>t. ''<li>'' @ escapeHtml t @ ''</li>'' @ [LF]) = lineItem"
    by (rule ext) (simp add: lineItem_def)
  then show ?thesis by simp
qed

lemma run_both:
  "(\<not> inList s \<longrightarrow>
      finish (foldl htmlStep s ls)
        = html s @ concat (map (blockHtml escapeHtml) (maximalBlocks ls)))
 \<and> (inList s \<and> listType s = tagOf k \<longrightarrow>
      finish (foldl htmlStep s ls)
        = html s @ concat (map lineItem (map itemText (takeWhile (isItem k) ls)))
          @ ''</'' @ tagOf k @ ''>''
          @ concat (map (blockHtml escapeHtml) (maximalBlocks (dropWhile (isItem k) ls))))"
proof (induction ls arbitrary: s k)
  case Nil
  show ?case by (simp add: finish_def closeTag_tagOf)
next
  case (Cons l ls)
  show ?case
  proof (cases l)
    case Blank
    then show ?thesis using Cons[of "closeList s"]
      by (auto simp add: closeList_def emit_def closeTag_tagOf)
  next
    case (HeadingLine t)
    then show ?thesis
      using Cons[of "emit (''<h2>'' @ escapeHtml t @ ''</h2>'' @ [LF]) (closeList s)"]
      by (auto simp add: closeList_def emit_def closeTag_tagOf)
  next
    case (ParagraphLine t)
    then show ?thesis
      using Cons[of "emit (''<p>'' @ escapeHtml t @ ''</p>'' @ [LF]) (closeList s)"]
      by (auto simp add: closeList_def emit_def closeTag_tagOf)
  next
    case (ListItemLine k' t)
    then show ?thesis using Cons[of "emit (lineItem t) (openList (tagOf k') s)" k']
      by (auto simp add: openList_def emit_def closeTag_tagOf tagOf_inj blockHtml_lineItem
            simp del: blockHtml.simps)
  qed
qed

lemma convert_blocks:
  "convertMarkdownToHTML stamp text agentName extraContext
     = htmlHeader agentName extraContext
       @ concat (map (blockHtml escapeHtml) (htmlBlocks text)) @ htmlFooter stamp"
  using run_both[of "\<lparr>html = htmlHeader agentName extraContext, inList = False, listType = []\<rparr>"
      "lineKinds text"]
  by (simp add: convertMarkdownToHTML_def Let_def foldl_htmlLine finish_def htmlBlocks_def
        lineKinds_def)

lemma replaceChar_Cons:
  "replaceChar c r (x # xs) = (if x = c then r else [x]) @ replaceChar c r xs"
  by (simp add: replaceChar_def)

lemma replaceChar_append: "replaceChar c r (xs @ ys) = replaceChar c r xs @ replaceChar c r ys"
  by (simp add: replaceChar_def)

lemma replaceChar_Nil: "replaceChar c r [] = []"
  by (simp add: replaceChar_def)

lemma escapeHtml_Nil: "escapeHtml [] = []"
  by (simp add: escapeHtml_def replaceChar_Nil)

lemma escapeHtml_Cons: "escapeHtml (x # xs) = entity x @ escapeHtml xs"
  by (simp add: escapeHtml_def entity_def replaceChar_Cons replaceChar_append replaceChar_Nil
        DQ_def SQ_def)

lemma escapeHtml_entity: "escapeHtml t = concat (map entity t)"
  by (induction t) (simp_all add: escapeHtml_Nil escapeHtml_Cons)

lemma entity_clean: "set (entity c) \<inter> {CHR ''<'', CHR ''>'', DQ, SQ} = {}"
  by (simp add: entity_def DQ_def SQ_def)

lemma escapeHtml_clean: "set (escapeHtml t) \<inter> {CHR ''<'', CHR ''>'', DQ, SQ} = {}"
  using entity_clean by (induction t) (auto simp add: escapeHtml_Nil escapeHtml_Cons)

section \<open>The handlers and the lookup\<close>

lemma handleHTMLOutput_eq:
  "handleHTMLOutput w agentName advisorText extraContext
     = ([Log (''HTML successfully generated for '' @ agentName)],
        Inr (Success (''HTML successfully generated for '' @ agentName) ''HTML''
               (Some (filter (\<lambda>c. c \<noteq> LF)
                        (convertMarkdownToHTML (now w) advisorText agentName extraContext)))
               extraContext))"
  by (simp add: handleHTMLOutput_def act_defs)

lemma handleEmailOutput_events:
  "fst (handleEmailOutput w agentName advisorText extraContext)
     = SendEmail \<lparr>to = recipient, subject = agentName @ '' - Output'', body = None,
          htmlBody = Some (convertMarkdownToHTML (now w) advisorText agentName extraContext),
          attachments = []\<rparr>
       # (case sendFails w of
            None \<Rightarrow> [Log (''HTML email sent successfully for '' @ agentName)]
          | Some m \<Rightarrow> [])"
  by (simp add: handleEmailOutput_def act_defs split: option.splits)





lemma findAgent_None:
  "\<forall>row \<in> set rows. toLowerCase (trim (fst row)) \<noteq> toLowerCase agentName \<Longrightarrow>
     findAgent rows agentName = None"
  by (induction rows) auto

lemma findAgent_first:
  "\<forall>row \<in> set pre. toLowerCase (trim (fst row)) \<noteq> toLowerCase agentName \<Longrightarrow>
   toLowerCase (trim name) = toLowerCase agentName \<Longrightarrow>
     findAgent (pre @ (name, prompt) # post) agentName = Some prompt"
  by (induction pre) auto

lemma runAgent_not_found:
  "findAgent (drop 1 (sheet w)) agentName = None
     \<or> findAgent (drop 1 (sheet w)) agentName = Some [] \<Longrightarrow>
   runAgent w agentName extraContext fmt = ([SheetRead], Inl (notFound agentName))"
  by (auto simp add: runAgent_def act_defs)

section \<open>C1: the item text of an ordered-list line in the two renderers\<close>

text \<open>
  The loop body of \<^verbatim>\<open>addStyledContent\<close> takes the same branches as that of the HTML
  converter; in the numbered branch it passes the whole trimmed line on, not the text after
  the marker.
\<close>

lemma docLine_classify:
  "docLine b raw =
     (case classify (trim raw) of
        Blank \<Rightarrow> b
      | HeadingLine t \<Rightarrow>
          b @ [Paragraph t [Heading HEADING2, Bold True, SpacingBefore 16, SpacingAfter 6]]
      | ListItemLine Ordered t \<Rightarrow> b @ [ListItem (trim raw) [Glyph NUMBER, FontSize 11]]
      | ListItemLine Unordered t \<Rightarrow> b @ [ListItem t [Glyph BULLET, FontSize 11]]
      | ParagraphLine t \<Rightarrow>
          b @ [Paragraph t [FontSize 11, LineSpacing (14 / 10), SpacingAfter 8]])"
  by (simp add: docLine_def classify_def Let_def)

text \<open>
  C1 (the adapters agree on the text of every block; the item text of an ordered-list line
  is the content after the numeric marker in each of them). On the line \<^verbatim>\<open>1. a\<close> the
  document adapter appends a numbered list item whose text is the whole line, marker
  included, while the HTML converter emits the item \<^verbatim>\<open>a\<close>: the two do not agree.
\<close>

theorem ordered_item_text_differs:
  "addStyledContent [] ''1. a'' = [ListItem ''1. a'' [Glyph NUMBER, FontSize 11]]
   \<and> convertMarkdownToHTML stamp ''1. a'' agentName extraContext
       = htmlHeader agentName extraContext
         @ ''<ol>'' @ [LF] @ ''<li>a</li>'' @ [LF] @ ''</ol>'' @ htmlFooter stamp"
  by (simp add: addStyledContent_def docLine_def convertMarkdownToHTML_def htmlLine_def
        string_defs closeTag_def emit_def closeList_def openList_def finish_def Let_def)

section \<open>C2: classification\<close>

text \<open>
  C2 (classification is total and exclusive). The five kinds are decided by five conditions
  on the trimmed line of which exactly one holds: empty; not empty and ending with a colon;
  otherwise matching the numbered pattern; otherwise starting with a dash; otherwise none of
  these. The empty string is blank, a non-empty line ending with a colon is a heading
  whatever else it matches, and the loop body of the converter acts on the kind so decided.
\<close>

theorem classification_total_exclusive:
  "(classify line = Blank) = (line = [])
   \<and> (\<exists>t. classify line = HeadingLine t) = (line \<noteq> [] \<and> endsWith line (CHR '':''))
   \<and> (\<exists>t. classify line = ListItemLine Ordered t)
       = (line \<noteq> [] \<and> \<not> endsWith line (CHR '':'') \<and> testNumbered line)
   \<and> (\<exists>t. classify line = ListItemLine Unordered t)
       = (line \<noteq> [] \<and> \<not> endsWith line (CHR '':'') \<and> \<not> testNumbered line
          \<and> startsWith line (CHR ''-''))
   \<and> (\<exists>t. classify line = ParagraphLine t)
       = (line \<noteq> [] \<and> \<not> endsWith line (CHR '':'') \<and> \<not> testNumbered line
          \<and> \<not> startsWith line (CHR ''-''))
   \<and> classify [] = Blank
   \<and> (line \<noteq> [] \<and> endsWith line (CHR '':'') \<longrightarrow> classify line = HeadingLine line)
   \<and> htmlLine s raw = htmlStep s (classify (trim raw))"
  by (simp add: classify_def htmlLine_classify)

theorem classification_total_exclusive_witness:
  "testNumbered ''1. Steps:'' \<and> classify ''1. Steps:'' = HeadingLine ''1. Steps:''
   \<and> startsWith ''- Steps:'' (CHR ''-'') \<and> classify ''- Steps:'' = HeadingLine ''- Steps:''"
  using classification_total_exclusive [of "''1. Steps:''"]
    classification_total_exclusive [of "''- Steps:''"]
  by (simp add: endsWith_def testNumbered_def startsWith_def isDigit_def)

section \<open>C3: list blocks\<close>

lemma lineKinds_example:
  "lineKinds (''1. a'' @ [LF] @ ''2. b'' @ [LF] @ ''- c'' @ [LF] @ [LF] @ ''- d'')
     = [ListItemLine Ordered ''a'', ListItemLine Ordered ''b'', ListItemLine Unordered ''c'',
        Blank, ListItemLine Unordered ''d'']"
  by (simp add: lineKinds_def classify_def string_defs)

text \<open>
  C3 (list blocks are maximal). The markup the converter produces between its opening and
  closing templates is the markup of the blocks of \<^const>\<open>maximalBlocks\<close>, one after the
  other: a list block holds the longest run of consecutive list lines of one kind. In the
  loop, a list line of the kind of the open list only adds its item; any other line acts
  as it does on the state in which the open list has been closed, so the closing tag comes
  before whatever the line appends; and a list open after the last line is closed.
\<close>

theorem list_blocks_maximal:
  "convertMarkdownToHTML stamp text agentName extraContext
     = htmlHeader agentName extraContext
       @ concat (map (blockHtml escapeHtml) (maximalBlocks (lineKinds text)))
       @ htmlFooter stamp
   \<and> (inList s \<and> listType s = tagOf k \<and> classify (trim raw) = ListItemLine k t \<longrightarrow>
        htmlLine s raw = emit (lineItem t) s)
   \<and> (inList s \<and> listType s = tagOf k \<and> \<not> isItem k (classify (trim raw)) \<longrightarrow>
        htmlLine s raw
          = htmlLine (s\<lparr>html := html s @ ''</'' @ tagOf k @ ''>'', inList := False\<rparr>) raw)
   \<and> (inList s \<and> listType s = tagOf k \<longrightarrow> finish s = html s @ ''</'' @ tagOf k @ ''>'')"
proof -
  have merge: "inList s \<and> listType s = tagOf k \<and> classify (trim raw) = ListItemLine k t \<longrightarrow>
        htmlLine s raw = emit (lineItem t) s"
    by (simp add: htmlLine_classify openList_def)
  have close: "inList s \<and> listType s = tagOf k \<and> \<not> isItem k (classify (trim raw)) \<longrightarrow>
        htmlLine s raw
          = htmlLine (s\<lparr>html := html s @ ''</'' @ tagOf k @ ''>'', inList := False\<rparr>) raw"
    by (cases "classify (trim raw)")
      (auto simp add: htmlLine_classify closeList_def openList_def emit_def closeTag_tagOf
        tagOf_inj)
  have last: "inList s \<and> listType s = tagOf k \<longrightarrow> finish s = html s @ ''</'' @ tagOf k @ ''>''"
    by (simp add: finish_def closeTag_tagOf)
  show ?thesis
    using merge close last by (simp add: convert_blocks htmlBlocks_def)
qed

theorem list_blocks_maximal_witness:
  "convertMarkdownToHTML ''t'' (''1. a'' @ [LF] @ ''2. b'' @ [LF] @ ''- c'' @ [LF] @ [LF] @ ''- d'')
       ''SA'' ''x''
     = htmlHeader ''SA'' ''x''
       @ ''<ol>'' @ [LF] @ ''<li>a</li>'' @ [LF] @ ''<li>b</li>'' @ [LF] @ ''</ol>''
       @ ''<ul>'' @ [LF] @ ''<li>c</li>'' @ [LF] @ ''</ul>''
       @ ''<ul>'' @ [LF] @ ''<li>d</li>'' @ [LF] @ ''</ul>''
       @ htmlFooter ''t''
   \<and> htmlLine \<lparr>html = ''<ol>'', inList = True, listType = ''ol''\<rparr> ''- c''
       = htmlLine \<lparr>html = ''<ol></ol>'', inList = False, listType = ''ol''\<rparr> ''- c''
   \<and> finish \<lparr>html = ''<ol>'', inList = True, listType = ''ol''\<rparr> = ''<ol></ol>''"
  using list_blocks_maximal [of "''t''"
      "''1. a'' @ [LF] @ ''2. b'' @ [LF] @ ''- c'' @ [LF] @ [LF] @ ''- d''" "''SA''" "''x''"
      "\<lparr>html = ''<ol>'', inList = True, listType = ''ol''\<rparr>" Ordered "''- c''"]
  unfolding lineKinds_example
  by (simp add: tagOf_def escapeHtml_entity entity_def DQ_def SQ_def classify_def string_defs)

section \<open>C4: escaping of block text\<close>

lemma htmlBlocks_example:
  "htmlBlocks (''a<b & '' @ [DQ] @ ''c'' @ [SQ] @ ''>'')
     = [ParagraphBlock (''a<b & '' @ [DQ] @ ''c'' @ [SQ] @ ''>'')]"
  by (simp add: htmlBlocks_def lineKinds_def classify_def string_defs)

text \<open>
  C4 (block text is escaped; the HTML response has no line feed). The markup of the
  converter is that of its blocks with every character of every block text replaced by its
  entity; the escaped text of a block contains none of the characters \<^verbatim>\<open><\<close>, \<^verbatim>\<open>>\<close>, the
  double quote and the single quote; the message of the email handler carries the
  converter's output as its HTML body; and the output field of the HTML handler is that
  output without its line feeds.
\<close>

theorem block_text_escaped:
  "convertMarkdownToHTML stamp text agentName extraContext
     = htmlHeader agentName extraContext
       @ concat (map (blockHtml (\<lambda>t. concat (map entity t))) (htmlBlocks text))
       @ htmlFooter stamp
   \<and> set (escapeHtml t) \<inter> {CHR ''<'', CHR ''>'', DQ, SQ} = {}
   \<and> hd (fst (handleEmailOutput w agentName text extraContext))
       = SendEmail \<lparr>to = recipient, subject = agentName @ '' - Output'', body = None,
           htmlBody = Some (convertMarkdownToHTML (now w) text agentName extraContext),
           attachments = []\<rparr>
   \<and> snd (handleHTMLOutput w agentName text extraContext)
       = Inr (Success (''HTML successfully generated for '' @ agentName) ''HTML''
                (Some (filter (\<lambda>c. c \<noteq> LF)
                         (convertMarkdownToHTML (now w) text agentName extraContext)))
                extraContext)
   \<and> LF \<notin> set (filter (\<lambda>c. c \<noteq> LF)
                    (convertMarkdownToHTML (now w) text agentName extraContext))"
proof -
  have eq: "escapeHtml = (\<lambda>t. concat (map entity t))"
    by (rule ext) (rule escapeHtml_entity)
  have conv: "convertMarkdownToHTML stamp text agentName extraContext
     = htmlHeader agentName extraContext
       @ concat (map (blockHtml (\<lambda>t. concat (map entity t))) (htmlBlocks text))
       @ htmlFooter stamp"
    using convert_blocks [of stamp "text" agentName extraContext] by (simp only: eq)
  show ?thesis
    using conv by (simp add: escapeHtml_clean handleHTMLOutput_eq handleEmailOutput_events)
qed

theorem block_text_escaped_witness:
  "convertMarkdownToHTML ''t'' (''a<b & '' @ [DQ] @ ''c'' @ [SQ] @ ''>'') ''SA'' ''x''
     = htmlHeader ''SA'' ''x'' @ ''<p>a&lt;b &amp; &quot;c&#039;&gt;</p>'' @ [LF] @ htmlFooter ''t''"
  using block_text_escaped [of "''t''" "''a<b & '' @ [DQ] @ ''c'' @ [SQ] @ ''>''" "''SA''" "''x''"]
  unfolding htmlBlocks_example
  by (simp add: entity_def DQ_def SQ_def)

section \<open>C5: cleanup in the PDF handler\<close>

text \<open>
  C5 (the deletion of the temporary document is attempted whether or not the conversion
  and the sending succeeded, and its own failure does not change the outcome). The handler
  puts the call of \<^verbatim>\<open>setTrashed\<close> after the sending, with no \<^verbatim>\<open>finally\<close>. When
  \<^verbatim>\<open>MailApp.sendEmail\<close> throws, or when \<^verbatim>\<open>getAs\<close> throws, the document has been created
  and saved, the handler throws the same error, and \<^verbatim>\<open>setTrashed\<close> is never called: the
  document the script calls temporary stays in the drive. The other half of the claim holds:
  when \<^verbatim>\<open>setTrashed\<close> itself throws, the warning is logged and the success object is
  returned.
\<close>

theorem pdf_cleanup_skipped_on_failure:
  "handlePDFOutput sendFailure ''SA'' ''x'' ''y''
     = ([DocCreate ''SA-Output'', DocSave (pdfDocument sendFailure ''SA'' ''x'' ''y''),
         GetFile, GetAs ''SA-Output.pdf'', SendEmail (pdfMail ''SA'')],
        Inl ''Service invoked too many times'')
   \<and> SetTrashed \<notin> set (fst (handlePDFOutput sendFailure ''SA'' ''x'' ''y''))
   \<and> handlePDFOutput convertFailure ''SA'' ''x'' ''y''
     = ([DocCreate ''SA-Output'', DocSave (pdfDocument convertFailure ''SA'' ''x'' ''y''),
         GetFile, GetAs ''SA-Output.pdf''],
        Inl ''Conversion from text/plain failed'')
   \<and> SetTrashed \<notin> set (fst (handlePDFOutput convertFailure ''SA'' ''x'' ''y''))
   \<and> handlePDFOutput trashFailure ''SA'' ''x'' ''y''
     = ([DocCreate ''SA-Output'', DocSave (pdfDocument trashFailure ''SA'' ''x'' ''y''),
         GetFile, GetAs ''SA-Output.pdf'', SendEmail (pdfMail ''SA''), SetTrashed,
         Log ''Warning: Could not delete temporary doc: Access denied'',
         Log ''PDF report sent successfully for SA''],
        Inr (Success ''PDF report sent for SA'' ''PDF'' None ''y''))"
  by (simp add: handlePDFOutput_def act_defs sendFailure_def convertFailure_def trashFailure_def
        exampleWorld_def pdfMail_def pdfDocument_def)

section \<open>C6: an agent name that matches no row\<close>

text \<open>
  C6, as amended (no row after the header whose name, trimmed and in lower case, is the
  agent name in lower case). Then \<^verbatim>\<open>runAgent\<close> reads the sheet, throws the not-found
  error and makes no other call; a request that passed the validation of \<^verbatim>\<open>doGet\<close>
  answers with that error.
\<close>

theorem unknown_agent_not_found:
  assumes "\<forall>row \<in> set (drop 1 (sheet w)).
             toLowerCase (trim (fst row)) \<noteq> toLowerCase agentName"
  shows "runAgent w agentName extraContext fmt = ([SheetRead], Inl (notFound agentName))
   \<and> (agentname p = Some agentName \<and> agentName \<noteq> []
       \<and> toUpperCase (orElse (outputFormat p) ''PDF'') \<in> set [''PDF'', ''EMAIL'', ''HTML'']
       \<longrightarrow> doGet w p = ([SheetRead], Failure (notFound agentName)))"
proof -
  have run: "\<And>c f. runAgent w agentName c f = ([SheetRead], Inl (notFound agentName))"
    using assms by (simp add: runAgent_not_found findAgent_None)
  show ?thesis
    by (simp add: run doGet_def Let_def)
qed

theorem unknown_agent_not_found_witness:
  "runAgent exampleWorld ''CT'' ''deadlines'' ''HTML''
     = ([SheetRead], Inl (''Agent '' @ [DQ] @ ''CT'' @ [DQ] @ '' not found in sheet''))"
  using unknown_agent_not_found [of exampleWorld "''CT''" "''deadlines''" "''HTML''"]
  by (simp add: exampleWorld_def notFound_def case_defs string_defs)

text \<open>
  The claim as stated speaks of a case-insensitive match of the names. The stored name
  \<^verbatim>\<open>" SA "\<close> and the agent name \<^verbatim>\<open>"SA"\<close> do not match case-insensitively, yet the script
  trims the stored name, finds the row and calls the provider.
\<close>

theorem unknown_agent_counterexample:
  "map fst (drop 1 (sheet paddedStore)) = ['' SA '']
   \<and> \<not> caseInsensitiveMatch '' SA '' ''SA''
   \<and> fst (runAgent paddedStore ''SA'' ''deadlines'' ''HTML'')
       = [SheetRead, Fetch (''Advise on:'' @ [LF, LF] @ ''deadlines''),
          Log ''HTML successfully generated for SA'']"
  by (simp add: paddedStore_def exampleWorld_def caseInsensitiveMatch_def case_defs
        runAgent_def generateAndSendOutput_def handleHTMLOutput_eq act_defs
        isWhiteSpace_def trim_def)

section \<open>C7: validation of the request\<close>

text \<open>
  C7, as amended (an output format that is absent or empty defaults to PDF). A request
  without an agent name, or with an empty one, is answered with the error object at once,
  with no call made; so is a request whose output format is a non-empty string that is not
  PDF, HTML or EMAIL in upper case. An absent or empty output format is read as PDF. Every
  other request goes on to \<^verbatim>\<open>runAgent\<close> with the format in upper case.
\<close>

theorem invalid_request_rejected:
  "(agentname p = None \<or> agentname p = Some [] \<longrightarrow>
      doGet w p = ([], Failure ''Missing agentname parameter''))
   \<and> (agentname p = Some a \<and> a \<noteq> [] \<and> outputFormat p = Some f \<and> f \<noteq> []
       \<and> toUpperCase f \<notin> set [''PDF'', ''EMAIL'', ''HTML''] \<longrightarrow>
      doGet w p = ([], Failure ''Invalid outputFormat. Must be PDF, HTML, or EMAIL''))
   \<and> (outputFormat p = None \<or> outputFormat p = Some [] \<longrightarrow>
      doGet w p = doGet w (p\<lparr>outputFormat := Some ''PDF''\<rparr>))
   \<and> (agentname p = Some a \<and> a \<noteq> []
       \<and> toUpperCase (orElse (outputFormat p) ''PDF'') \<in> set [''PDF'', ''EMAIL'', ''HTML''] \<longrightarrow>
      doGet w p
        = (case runAgent w a (orElse (contextParam p) [])
                  (toUpperCase (orElse (outputFormat p) ''PDF'')) of
             (t, Inl m) \<Rightarrow> (t, Failure m)
           | (t, Inr r) \<Rightarrow> (t, r)))"
proof -
  have missing: "agentname p = None \<or> agentname p = Some [] \<longrightarrow>
      doGet w p = ([], Failure ''Missing agentname parameter'')"
    by (auto simp add: doGet_def Let_def)
  have invalid: "agentname p = Some a \<and> a \<noteq> [] \<and> outputFormat p = Some f \<and> f \<noteq> []
       \<and> toUpperCase f \<notin> set [''PDF'', ''EMAIL'', ''HTML''] \<longrightarrow>
      doGet w p = ([], Failure ''Invalid outputFormat. Must be PDF, HTML, or EMAIL'')"
    by (simp add: doGet_def orElse_def Let_def)
  have default: "outputFormat p = None \<or> outputFormat p = Some [] \<longrightarrow>
      doGet w p = doGet w (p\<lparr>outputFormat := Some ''PDF''\<rparr>)"
    by (cases "agentname p") (auto simp add: doGet_def orElse_def Let_def)
  have valid: "agentname p = Some a \<and> a \<noteq> []
       \<and> toUpperCase (orElse (outputFormat p) ''PDF'') \<in> set [''PDF'', ''EMAIL'', ''HTML''] \<longrightarrow>
      doGet w p
        = (case runAgent w a (orElse (contextParam p) [])
                  (toUpperCase (orElse (outputFormat p) ''PDF'')) of
             (t, Inl m) \<Rightarrow> (t, Failure m)
           | (t, Inr r) \<Rightarrow> (t, r))"
    by (simp add: doGet_def Let_def)
  show ?thesis
    using missing invalid default valid by blast
qed

theorem invalid_request_rejected_witness:
  "doGet exampleWorld xmlFormat
     = ([], Failure ''Invalid outputFormat. Must be PDF, HTML, or EMAIL'')
   \<and> doGet exampleWorld (xmlFormat\<lparr>agentname := None\<rparr>)
       = ([], Failure ''Missing agentname parameter'')"
  using invalid_request_rejected [of xmlFormat exampleWorld "''SA''" "''xml''"]
    invalid_request_rejected [of "xmlFormat\<lparr>agentname := None\<rparr>" exampleWorld]
  by (simp add: xmlFormat_def case_defs)

text \<open>
  The claim as stated asks that a request carrying any other output format value fail.
  The request \<^verbatim>\<open>agentname=SA&context=deadlines&outputFormat=\<close> carries the empty string,
  which is none of the three formats, and is served as a PDF request.
\<close>

theorem invalid_request_counterexample:
  "agentname emptyFormat = Some ''SA''
   \<and> outputFormat emptyFormat = Some []
   \<and> toUpperCase [] \<notin> set [''PDF'', ''EMAIL'', ''HTML'']
   \<and> doGet exampleWorld emptyFormat
       = ([SheetRead, Fetch (''Advise on:'' @ [LF, LF] @ ''deadlines''),
           DocCreate ''SA-Output'',
           DocSave (pdfDocument exampleWorld ''SA'' (''Risks:'' @ [LF] @ ''- slip'') ''deadlines''),
           GetFile, GetAs ''SA-Output.pdf'', SendEmail (pdfMail ''SA''), SetTrashed,
           Log ''Cleaned up temporary Google Doc: doc-1'',
           Log ''PDF report sent successfully for SA''],
          Success ''PDF report sent for SA'' ''PDF'' None ''deadlines'')"
  by (simp add: emptyFormat_def exampleWorld_def doGet_def orElse_def case_defs runAgent_def
        generateAndSendOutput_def handlePDFOutput_def act_defs isWhiteSpace_def trim_def
        pdfMail_def pdfDocument_def Let_def)

section \<open>C8: text of blank lines only\<close>



section \<open>C9: a matching row with an empty prompt\<close>

text \<open>
  C9, as amended (the first row after the header whose trimmed name is the agent name up
  to case has the empty string as its prompt). Then \<^verbatim>\<open>runAgent\<close> throws the not-found
  error after reading the sheet, and makes no other call.
\<close>

theorem empty_prompt_not_found:
  assumes "drop 1 (sheet w) = pre @ (name, []) # post"
    and "\<forall>row \<in> set pre. toLowerCase (trim (fst row)) \<noteq> toLowerCase agentName"
    and "toLowerCase (trim name) = toLowerCase agentName"
  shows "runAgent w agentName extraContext fmt = ([SheetRead], Inl (notFound agentName))"
  using assms by (simp add: runAgent_not_found findAgent_first)

theorem empty_prompt_not_found_witness:
  "runAgent emptyPromptStore ''SA'' ''deadlines'' ''HTML''
     = ([SheetRead], Inl (''Agent '' @ [DQ] @ ''SA'' @ [DQ] @ '' not found in sheet''))"
  using empty_prompt_not_found [of emptyPromptStore "[]" "''sa''" "[]" "''SA''" "''deadlines''"
      "''HTML''"]
  by (simp add: emptyPromptStore_def exampleWorld_def notFound_def case_defs string_defs)

text \<open>
  The claim as stated speaks of any row with a matching name and an empty prompt. With the
  rows \<^verbatim>\<open>("SA", "Advise on:")\<close> and \<^verbatim>\<open>("sa", "")\<close> the store holds such a row, and the
  loop stops at the first one: the request is served with the prompt of that row.
\<close>

theorem empty_prompt_counterexample:
  "drop 1 (sheet duplicateStore) = [(''SA'', ''Advise on:''), (''sa'', [])]
   \<and> caseInsensitiveMatch ''sa'' ''SA''
   \<and> runAgent duplicateStore ''SA'' ''deadlines'' ''HTML''
       = ([SheetRead, Fetch (''Advise on:'' @ [LF, LF] @ ''deadlines''),
           Log ''HTML successfully generated for SA''],
          Inr (Success ''HTML successfully generated for SA'' ''HTML''
                 (Some (filter (\<lambda>c. c \<noteq> LF)
                    (convertMarkdownToHTML (now duplicateStore) (''Risks:'' @ [LF] @ ''- slip'')
                       ''SA'' ''deadlines'')))
                 ''deadlines''))"
  by (simp add: duplicateStore_def exampleWorld_def caseInsensitiveMatch_def case_defs
        runAgent_def generateAndSendOutput_def handleHTMLOutput_eq act_defs
        isWhiteSpace_def trim_def)

section \<open>C10: the title line\<close>

text \<open>
  C10 (the title is not escaped). The converter's output starts with the opening tag of
  the container and a level-one heading that holds the agent name, a dash and the context
  exactly as given; the email handler sends that output; the HTML handler returns it with
  the line feeds removed, so every other character of the two strings is in the heading
  as it was given.
\<close>

theorem title_not_escaped:
  "convertMarkdownToHTML stamp text agentName extraContext
     = [LF] @ ''<div class='' @ [DQ] @ ''agent-response'' @ [DQ] @ ''>'' @ [LF] @ ''    ''
       @ ''<h1>'' @ agentName @ '' - '' @ extraContext @ ''</h1>''
       @ [LF] @ concat (map (blockHtml escapeHtml) (htmlBlocks text)) @ htmlFooter stamp
   \<and> hd (fst (handleEmailOutput w agentName text extraContext))
       = SendEmail \<lparr>to = recipient, subject = agentName @ '' - Output'', body = None,
           htmlBody = Some (convertMarkdownToHTML (now w) text agentName extraContext),
           attachments = []\<rparr>
   \<and> snd (handleHTMLOutput w agentName text extraContext)
       = Inr (Success (''HTML successfully generated for '' @ agentName) ''HTML''
           (Some (''<div class='' @ [DQ] @ ''agent-response'' @ [DQ] @ ''>'' @ ''    ''
                  @ ''<h1>'' @ filter (\<lambda>c. c \<noteq> LF) agentName @ '' - ''
                  @ filter (\<lambda>c. c \<noteq> LF) extraContext @ ''</h1>''
                  @ filter (\<lambda>c. c \<noteq> LF)
                      (concat (map (blockHtml escapeHtml) (htmlBlocks text))
                       @ htmlFooter (now w))))
           extraContext)"
  by (simp add: convert_blocks handleHTMLOutput_eq handleEmailOutput_events htmlHeader_def
        LF_def DQ_def)

theorem title_not_escaped_witness:
  "convertMarkdownToHTML ''t'' [] (''<b>'' @ [SQ]) (''a&'' @ [DQ])
     = [LF] @ ''<div class='' @ [DQ] @ ''agent-response'' @ [DQ] @ ''>'' @ [LF] @ ''    ''
       @ ''<h1><b>'' @ [SQ] @ '' - a&'' @ [DQ] @ ''</h1>'' @ [LF] @ htmlFooter ''t''"
  using title_not_escaped [of "''t''" "[]" "''<b>'' @ [SQ]" "''a&'' @ [DQ]"]
  by (simp add: htmlBlocks_def lineKinds_def classify_def string_defs)

end
